theory Spec2Isabelle
  imports
    Main
    "HOL-Library.Multiset"
    "HOL-Library.Char_ord"
    "HOL-Library.List_Lexorder"
    "HOL-Library.Word"
begin

section \<open>Package dochtml: rendering Go package documentation into HTML\<close>

text \<open>
  A shallow embedding of \<^verbatim>\<open>internal/etl/dochtml/dochtml.go\<close>. Go strings are byte
  strings: \<^typ>\<open>string\<close> with one \<^typ>\<open>char\<close> per byte, compared bytewise and
  lexicographically as Go's \<^verbatim>\<open><\<close> does (a proper prefix is smaller). A panic is the
  value \<^const>\<open>None\<close> of an option type.
\<close>

subsection \<open>The documentation model (package doc)\<close>

text \<open>
  The structs of package \<^verbatim>\<open>doc\<close>, with the fields this file reads. Syntax-tree nodes
  (\<^verbatim>\<open>ast.Node\<close>, \<^verbatim>\<open>ast.Decl\<close>, comment groups) are values of a type parameter
  \<open>'n\<close>; nothing here looks inside one.
\<close>

record 'n Example =
  Suffix :: string
  Doc :: string
  Code :: 'n
  Comments :: "'n list"
  Output :: string
  Unordered :: bool
  EmptyOutput :: bool

record 'n Value =
  Doc :: string
  Decl :: 'n

record 'n Func =
  Doc :: string
  Name :: string
  Decl :: 'n
  Recv :: string
  Examples :: "'n Example list"

record 'n Type =
  Doc :: string
  Name :: string
  Decl :: 'n
  Consts :: "'n Value list"
  Vars :: "'n Value list"
  Funcs :: "'n Func list"
  Methods :: "'n Func list"
  Examples :: "'n Example list"

record Note =
  Body :: string

text \<open>
  \<^verbatim>\<open>Notes\<close> is a Go map. It is kept as an association list whose keys are distinct; the
  order of the list stands for the order in which the runtime happens to store the entries,
  which no Go program may rely on.
\<close>

record 'n Package =
  Doc :: string
  Name :: string
  Notes :: "(string \<times> Note list) list"
  Consts :: "'n Value list"
  Types :: "'n Type list"
  Vars :: "'n Value list"
  Funcs :: "'n Func list"
  Examples :: "'n Example list"

subsection \<open>Examples and their identifiers\<close>

text \<open>
  \<^verbatim>\<open>example\<close> embeds a \<^verbatim>\<open>*doc.Example\<close> and adds three strings; \<^verbatim>\<open>examples\<close> holds
  the list and the map keyed by the identifier of the top-level declaration.
\<close>

record 'n example =
  Example :: "'n Example"
  ID :: string
  ParentID :: string
  Suffix :: string

record 'n examples =
  List :: "'n example list"
  Map :: "string \<rightharpoonup> 'n example list"

text \<open>
  \<^verbatim>\<open>exampleID\<close>: a \<^verbatim>\<open>switch\<close> of four cases and a \<^verbatim>\<open>default\<close> that panics. The
  cases are tried in the order of the source; \<^const>\<open>None\<close> is the panic.
\<close>

definition exampleID :: "string \<Rightarrow> string \<Rightarrow> string option" where
  "exampleID id' suffix =
     (if id' = [] \<and> suffix = [] then Some ''example-package''
      else if id' = [] \<and> suffix \<noteq> [] then Some (''example-package-'' @ suffix)
      else if id' \<noteq> [] \<and> suffix = [] then Some (''example-'' @ id')
      else if id' \<noteq> [] \<and> suffix \<noteq> [] then Some (''example-'' @ id' @ ''-'' @ suffix)
      else None)"

text \<open>Indexing a Go map of slices: a missing key gives the nil slice.\<close>

definition index :: "('k \<rightharpoonup> 'v list) \<Rightarrow> 'k \<Rightarrow> 'v list" where
  "index m k = (case m k of None \<Rightarrow> [] | Some v \<Rightarrow> v)"

text \<open>
  A \<^verbatim>\<open>for ... range\<close> loop over a slice whose body updates a state and may panic.
\<close>

fun forRange :: "('s \<Rightarrow> 'a \<Rightarrow> 's option) \<Rightarrow> 's \<Rightarrow> 'a list \<Rightarrow> 's option" where
  "forRange body s [] = Some s"
| "forRange body s (x # xs) =
     (case body s x of None \<Rightarrow> None | Some s' \<Rightarrow> forRange body s' xs)"

text \<open>
  The body that \<^verbatim>\<open>collectExamples\<close> repeats in each of its five innermost loops: build the
  \<^verbatim>\<open>example\<close> for parent \<open>id'\<close>, append it to the list and to the map entry of \<open>id'\<close>.
\<close>

definition addExample :: "string \<Rightarrow> 'n examples \<Rightarrow> 'n Example \<Rightarrow> 'n examples option" where
  "addExample id' exs ex =
     (case exampleID id' (Example.Suffix ex) of
        None \<Rightarrow> None
      | Some i \<Rightarrow>
          (let e = \<lparr>Example = ex, ID = i, ParentID = id', Suffix = Example.Suffix ex\<rparr>
           in Some (exs\<lparr>List := List exs @ [e],
                         Map := (Map exs)(id' \<mapsto> index (Map exs) id' @ [e])\<rparr>)))"

definition collectFunc :: "'n examples \<Rightarrow> 'n Func \<Rightarrow> 'n examples option" where
  "collectFunc exs f = forRange (addExample (Func.Name f)) exs (Func.Examples f)"

definition collectMethod :: "string \<Rightarrow> 'n examples \<Rightarrow> 'n Func \<Rightarrow> 'n examples option" where
  "collectMethod tname exs m =
     forRange (addExample (tname @ ''.'' @ Func.Name m)) exs (Func.Examples m)"

definition collectType :: "'n examples \<Rightarrow> 'n Type \<Rightarrow> 'n examples option" where
  "collectType exs t =
     (case forRange (addExample (Type.Name t)) exs (Type.Examples t) of
        None \<Rightarrow> None
      | Some exs1 \<Rightarrow>
          (case forRange collectFunc exs1 (Type.Funcs t) of
             None \<Rightarrow> None
           | Some exs2 \<Rightarrow> forRange (collectMethod (Type.Name t)) exs2 (Type.Methods t)))"

text \<open>The loops of \<^verbatim>\<open>collectExamples\<close>, up to the call of the sort: discovery order.\<close>

definition collectLoops :: "'n Package \<Rightarrow> 'n examples option" where
  "collectLoops p =
     (case forRange (addExample []) \<lparr>List = [], Map = Map.empty\<rparr> (Package.Examples p) of
        None \<Rightarrow> None
      | Some exs1 \<Rightarrow>
          (case forRange collectFunc exs1 (Package.Funcs p) of
             None \<Rightarrow> None
           | Some exs2 \<Rightarrow> forRange collectType exs2 (Package.Types p)))"

text \<open>
  \<^verbatim>\<open>sort.SliceStable\<close> is Go's standard library. It is represented by an insertion sort
  that uses nothing but \<open>less'\<close>: an element is put behind every element that \<open>less'\<close>
  places before it and in front of the first one that \<open>less'\<close> does not.
\<close>

fun insertStable :: "('a \<Rightarrow> 'a \<Rightarrow> bool) \<Rightarrow> 'a \<Rightarrow> 'a list \<Rightarrow> 'a list" where
  "insertStable less' x [] = [x]"
| "insertStable less' x (y # ys) =
     (if less' y x then y # insertStable less' x ys else x # y # ys)"

definition SliceStable :: "('a \<Rightarrow> 'a \<Rightarrow> bool) \<Rightarrow> 'a list \<Rightarrow> 'a list" where
  "SliceStable less' xs = foldr (insertStable less') xs []"

definition collectExamples :: "'n Package \<Rightarrow> 'n examples option" where
  "collectExamples p =
     (case collectLoops p of
        None \<Rightarrow> None
      | Some exs \<Rightarrow>
          Some (exs\<lparr>List := SliceStable (\<lambda>a b. ParentID a < ParentID b) (List exs)\<rparr>))"

subsection \<open>The function map and the document template\<close>

text \<open>
  What the template engine writes. Executing a template writes its nodes one after the
  other: a text node writes its literal text, an action writes the value of its pipeline
  after the contextual escaper of \<^verbatim>\<open>html/template\<close> has seen it. A value is a plain
  string or a \<^verbatim>\<open>template.HTML\<close>; the context is the place of the action in the markup:
  element content, a quoted attribute value, or a URL inside \<^verbatim>\<open>href\<close>.
\<close>

datatype tvalue = Str string | HTML string

datatype escaping = Element | Attribute | URL

datatype piece = Text string | Action escaping tvalue

text \<open>
  A run of the template: the pieces written so far, and the error that stopped it, if
  any. \<open>andThen\<close> runs its second part only when the first did not fail.
\<close>

type_synonym 'e exec = "piece list \<times> 'e option"

definition lit :: "string \<Rightarrow> 'e exec" where
  "lit s = ([Text s], None)"

definition act :: "escaping \<Rightarrow> tvalue \<Rightarrow> 'e exec" where
  "act c v = ([Action c v], None)"

definition call :: "'e + 'a \<Rightarrow> ('a \<Rightarrow> 'e exec) \<Rightarrow> 'e exec" where
  "call r k = (case r of Inl e \<Rightarrow> ([], Some e) | Inr v \<Rightarrow> k v)"

definition andThen :: "'e exec \<Rightarrow> 'e exec \<Rightarrow> 'e exec" where
  "andThen a b = (case snd a of Some e \<Rightarrow> a | None \<Rightarrow> (fst a @ fst b, snd b))"

definition seq :: "'e exec list \<Rightarrow> 'e exec" where
  "seq xs = foldr andThen xs ([], None)"

definition if_then :: "bool \<Rightarrow> 'e exec \<Rightarrow> 'e exec" where
  "if_then c a = (if c then a else ([], None))"

definition range_slice :: "'a list \<Rightarrow> ('a \<Rightarrow> 'e exec) \<Rightarrow> 'e exec" where
  "range_slice xs body = seq (map body xs)"

text \<open>\<^verbatim>\<open>{{with .Suffix}}\<close>: the body runs when the string is not empty.\<close>

definition with_string :: "string \<Rightarrow> (string \<Rightarrow> 'e exec) \<Rightarrow> 'e exec" where
  "with_string s body = if_then (s \<noteq> []) (body s)"

text \<open>
  \<^verbatim>\<open>range\<close> over a Go map: the template engine visits the keys in sorted order.
\<close>

definition range_map :: "(string \<times> 'v) list \<Rightarrow> (string \<Rightarrow> 'v \<Rightarrow> 'e exec) \<Rightarrow> 'e exec" where
  "range_map m body = seq (map (\<lambda>kv. body (fst kv) (snd kv)) (sort_key fst m))"

definition nl :: "'e exec" where
  "nl = act Element (Str [CHR 0x0A])"

definition pilcrow :: string where
  "pilcrow = [CHR 0xC2, CHR 0xB6]"

text \<open>
  \<^verbatim>\<open>Code\<close>, the method of \<^verbatim>\<open>example\<close>: a \<^verbatim>\<open>printer.CommentedNode\<close> when the
  example has comments, the code as it is otherwise.
\<close>

datatype 'n code = CommentedNode 'n "'n list" | Node 'n

definition example_Code :: "'n example \<Rightarrow> 'n code" where
  "example_Code ex =
     (if length (Example.Comments (Example ex)) > 0
      then CommentedNode (Example.Code (Example ex)) (Example.Comments (Example ex))
      else Node (Example.Code (Example ex)))"

text \<open>
  Package \<^verbatim>\<open>render\<close> is not among the files. A \<^verbatim>\<open>Renderer\<close> is any four functions of
  the shapes the template calls them with, each of which may fail, and \<^verbatim>\<open>render.New\<close>
  is a parameter of \<open>Render\<close> below. \<^verbatim>\<open>DeclHTML\<close> returns the struct with the two
  fields the template reads.
\<close>

record decl_out =
  Doc :: tvalue
  Decl :: tvalue

record ('n, 'e) Renderer =
  Synopsis :: "'n \<Rightarrow> 'e + tvalue"
  DocHTML :: "string \<Rightarrow> 'e + tvalue"
  DeclHTML :: "string \<Rightarrow> 'n \<Rightarrow> 'e + decl_out"
  CodeHTML :: "'n code \<Rightarrow> 'e + tvalue"

record ('n, 'e) FuncMap =
  render_synopsis :: "'n \<Rightarrow> 'e + tvalue"
  render_doc :: "string \<Rightarrow> 'e + tvalue"
  render_decl :: "string \<Rightarrow> 'n \<Rightarrow> 'e + decl_out"
  render_code :: "'n code \<Rightarrow> 'e + tvalue"
  source_link :: "string \<Rightarrow> 'n \<Rightarrow> 'e + tvalue"

text \<open>\<^verbatim>\<open>ternary\<close> of the function map, at the type the template uses it: a bool.\<close>

definition ternary :: "bool \<Rightarrow> 'a \<Rightarrow> 'a \<Rightarrow> 'a" where
  "ternary q a b = (if q = False then b else a)"

text \<open>\<^verbatim>\<open>or\<close> of two strings: the first when it is not empty, else the second.\<close>

definition or_string :: "string \<Rightarrow> string \<Rightarrow> string" where
  "or_string a b = (if a \<noteq> [] then a else b)"

text \<open>
  The data the template is executed on: the anonymous struct of \<open>Render\<close>. Its own
  \<^verbatim>\<open>Examples\<close> field hides the one of the embedded package.
\<close>

record 'n data =
  RootURL :: string
  Package :: "'n Package"
  Examples :: "'n examples"

text \<open>
  The template \<^verbatim>\<open>example\<close> (lines 379 to 395), executed on a slice of examples.
\<close>

definition tmpl_example :: "('n, 'e) FuncMap \<Rightarrow> 'n example list \<Rightarrow> 'e exec" where
  \<open>tmpl_example fm dot =
     range_slice dot (\<lambda>ex. seq
       [lit ''<details id="'', act Attribute (Str (ID ex)), lit ''" class="example">'', nl,
        lit ''<summary class="example-header">Example'',
        with_string (example.Suffix ex)
          (\<lambda>s. seq [lit '' ('', act Element (Str s), lit '')'']),
        lit '' <a href="#'', act URL (Str (ID ex)),
        lit (''">'' @ pilcrow @ ''</a></summary>''), nl,
        lit ''<div class="example-body">'', nl,
        if_then (Example.Doc (Example ex) \<noteq> [])
          (seq [call (render_doc fm (Example.Doc (Example ex))) (act Element), nl]),
        lit ''<p>Code:</p>'', nl,
        call (render_code fm (example_Code ex)) (act Element), nl,
        if_then (Example.Output (Example ex) \<noteq> [] \<or> Example.EmptyOutput (Example ex))
          (seq [lit ''<p>'',
                act Element (Str (ternary (Example.Unordered (Example ex))
                                    ''Unordered output:'' ''Output:'')),
                lit ''</p>'', nl,
                lit ''<pre>'', nl, act Element (Str (Example.Output (Example ex))),
                lit ''</pre>'', nl]),
        lit ''</div>'', nl,
        lit ''</details>'', nl,
        nl])\<close>

text \<open>
  The three lines that print a declaration wherever the template has them:
  \<^verbatim>\<open>$out := render_decl .Doc .Decl\<close>, \<^verbatim>\<open>$out.Decl\<close>, \<^verbatim>\<open>$out.Doc\<close>, and the newline.
\<close>

definition tmpl_decl :: "('n, 'e) FuncMap \<Rightarrow> string \<Rightarrow> 'n \<Rightarrow> 'e exec" where
  "tmpl_decl fm doc decl =
     seq [call (render_decl fm doc decl)
            (\<lambda>out. seq [act Element (decl_out.Decl out), act Element (decl_out.Doc out)]),
          nl]"

text \<open>Lines 247 to 259: the navigation list.\<close>

definition tmpl_nav :: "'n data \<Rightarrow> 'e exec" where
  \<open>tmpl_nav d =
     (let p = Package d; exs = data.Examples d in
      if_then (Package.Doc p \<noteq> [] \<or> Package.Consts p \<noteq> [] \<or> Package.Vars p \<noteq> []
            \<or> Package.Funcs p \<noteq> [] \<or> Package.Types p \<noteq> [] \<or> List exs \<noteq> [])
        (seq [lit ''<ul>'', nl,
              if_then (Package.Doc p \<noteq> [] \<or> index (Map exs) [] \<noteq> [])
                (seq [lit ''<li><a href="#pkg-overview">Overview</a></li>'', nl]),
              if_then (Package.Consts p \<noteq> [] \<or> Package.Vars p \<noteq> []
                    \<or> Package.Funcs p \<noteq> [] \<or> Package.Types p \<noteq> [])
                (seq [lit ''<li><a href="#pkg-index">Index</a></li>'', nl]),
              if_then (List exs \<noteq> [])
                (seq [lit ''<li><a href="#pkg-examples">Examples</a></li>'', nl]),
              lit ''</ul>'', nl]))\<close>

text \<open>Lines 261 to 265: the overview.\<close>

definition tmpl_overview :: "('n, 'e) FuncMap \<Rightarrow> 'n data \<Rightarrow> 'e exec" where
  \<open>tmpl_overview fm d =
     (let p = Package d; exs = data.Examples d in
      if_then (Package.Doc p \<noteq> [] \<or> index (Map exs) [] \<noteq> [])
        (seq [lit (''<h2 id="pkg-overview">Overview <a href="#pkg-overview">'' @ pilcrow
                   @ ''</a></h2>''),
              act Element (Str [CHR 0x0A, CHR 0x0A]),
              call (render_doc fm (Package.Doc p)) (act Element), nl,
              tmpl_example fm (index (Map exs) [])]))\<close>

text \<open>Lines 268 to 290: the index of declarations.\<close>

definition tmpl_index_func :: "('n, 'e) FuncMap \<Rightarrow> 'n Func \<Rightarrow> 'e exec" where
  \<open>tmpl_index_func fm f =
     seq [lit ''<li><a href="#'', act URL (Str (Func.Name f)), lit ''">'',
          call (render_synopsis fm (Func.Decl f)) (act Element), lit ''</a></li>'', nl]\<close>

definition tmpl_index_method :: "('n, 'e) FuncMap \<Rightarrow> string \<Rightarrow> 'n Func \<Rightarrow> 'e exec" where
  \<open>tmpl_index_method fm tname m =
     seq [lit ''<li><a href="#'', act URL (Str tname), lit ''.'', act URL (Str (Func.Name m)),
          lit ''">'', call (render_synopsis fm (Func.Decl m)) (act Element),
          lit ''</a></li>'', nl]\<close>

definition tmpl_index_type :: "('n, 'e) FuncMap \<Rightarrow> 'n Type \<Rightarrow> 'e exec" where
  \<open>tmpl_index_type fm t =
     (let tname = Type.Name t in
      seq [lit ''<li><a href="#'', act URL (Str tname), lit ''">type '',
           act Element (Str tname), lit ''</a></li>'', nl,
           if_then (Type.Funcs t \<noteq> [])
             (seq [lit ''<ul>'', nl,
                   range_slice (Type.Funcs t) (tmpl_index_func fm),
                   lit ([CHR 0x0A, CHR 0x09, CHR 0x09, CHR 0x09] @ ''</ul>''), nl]),
           if_then (Type.Methods t \<noteq> [])
             (seq [lit ''<ul>'', nl,
                   range_slice (Type.Methods t) (tmpl_index_method fm tname),
                   lit ([CHR 0x0A, CHR 0x09, CHR 0x09, CHR 0x09] @ ''</ul>''), nl])])\<close>

definition tmpl_index :: "('n, 'e) FuncMap \<Rightarrow> 'n data \<Rightarrow> 'e exec" where
  \<open>tmpl_index fm d =
     (let p = Package d in
      seq [lit (''<h2 id="pkg-index">Index <a href="#pkg-index">'' @ pilcrow @ ''</a></h2>''),
           act Element (Str [CHR 0x0A, CHR 0x0A]),
           lit ''<ul>'', nl,
           if_then (Package.Consts p \<noteq> [])
             (seq [lit ''<li><a href="#pkg-constants">Constants</a></li>'', nl]),
           if_then (Package.Vars p \<noteq> [])
             (seq [lit ''<li><a href="#pkg-variables">Variables</a></li>'', nl]),
           range_slice (Package.Funcs p) (tmpl_index_func fm),
           range_slice (Package.Types p) (tmpl_index_type fm),
           range_map (Package.Notes p)
             (\<lambda>marker item.
                seq [lit ''<li><a href="#pkg-note-'', act URL (Str marker), lit ''">'',
                     act Element (Str marker), lit ''s</a></li>'']),
           lit ''</ul>'', nl])\<close>

text \<open>Lines 291 to 298: the list of examples.\<close>

definition examples_heading :: string where
  \<open>examples_heading =
     ''<h3 id="pkg-examples">Examples <a href="#pkg-examples">'' @ pilcrow @ ''</a></h3>''\<close>

definition tmpl_examples_list :: "'n data \<Rightarrow> 'e exec" where
  \<open>tmpl_examples_list d =
     if_then (List (data.Examples d) \<noteq> [])
       (seq [lit examples_heading, nl,
             lit ''<ul>'', nl,
             range_slice (List (data.Examples d))
               (\<lambda>ex. seq [lit ''<li><a href="#'', act URL (Str (ID ex)), lit ''">'',
                           act Element (Str (or_string (ParentID ex) ''Package'')),
                           with_string (example.Suffix ex)
                             (\<lambda>s. seq [lit '' ('', act Element (Str s), lit '')'']),
                           lit ''</a></li>'', nl]),
             lit ''</ul>'', nl])\<close>

text \<open>Lines 300 to 314: constants and variables.\<close>

definition tmpl_consts :: "('n, 'e) FuncMap \<Rightarrow> 'n data \<Rightarrow> 'e exec" where
  \<open>tmpl_consts fm d =
     (let p = Package d in
      seq [if_then (Package.Consts p \<noteq> [])
             (seq [lit (''<h3 id="pkg-constants">Constants <a href="#pkg-constants">''
                        @ pilcrow @ ''</a></h3>''), nl]),
           range_slice (Package.Consts p) (\<lambda>v. tmpl_decl fm (Value.Doc v) (Value.Decl v))])\<close>

definition tmpl_vars :: "('n, 'e) FuncMap \<Rightarrow> 'n data \<Rightarrow> 'e exec" where
  \<open>tmpl_vars fm d =
     (let p = Package d in
      seq [if_then (Package.Vars p \<noteq> [])
             (seq [lit (''<h3 id="pkg-variables">Variables <a href="#pkg-variables">''
                        @ pilcrow @ ''</a></h3>''), nl]),
           range_slice (Package.Vars p) (\<lambda>v. tmpl_decl fm (Value.Doc v) (Value.Decl v))])\<close>

text \<open>
  Lines 316 to 323, and again 348 to 355 inside a type: a function with its heading, its
  declaration and its examples.
\<close>

definition tmpl_func :: "('n, 'e) FuncMap \<Rightarrow> 'n data \<Rightarrow> 'n Func \<Rightarrow> 'e exec" where
  \<open>tmpl_func fm d f =
     seq [lit ''<h3 id="'', act Attribute (Str (Func.Name f)), lit ''">func '',
          call (source_link fm (Func.Name f) (Func.Decl f)) (act Element),
          lit '' <a href="#'', act URL (Str (Func.Name f)),
          lit (''">'' @ pilcrow @ ''</a></h3>''), nl,
          tmpl_decl fm (Func.Doc f) (Func.Decl f),
          tmpl_example fm (index (Map (data.Examples d)) (Func.Name f))]\<close>

text \<open>Lines 357 to 365: a method.\<close>

definition tmpl_method :: "('n, 'e) FuncMap \<Rightarrow> 'n data \<Rightarrow> string \<Rightarrow> 'n Func \<Rightarrow> 'e exec" where
  \<open>tmpl_method fm d tname m =
     (let name = tname @ ''.'' @ Func.Name m in
      seq [lit ''<h3 id="'', act Attribute (Str name), lit ''">func ('',
           act Element (Str (Func.Recv m)), lit '') '',
           call (source_link fm (Func.Name m) (Func.Decl m)) (act Element),
           lit '' <a href="#'', act URL (Str name),
           lit (''">'' @ pilcrow @ ''</a></h3>''), nl,
           tmpl_decl fm (Func.Doc m) (Func.Decl m),
           tmpl_example fm (index (Map (data.Examples d)) name)])\<close>

text \<open>Lines 325 to 366: a type.\<close>

definition tmpl_type :: "('n, 'e) FuncMap \<Rightarrow> 'n data \<Rightarrow> 'n Type \<Rightarrow> 'e exec" where
  \<open>tmpl_type fm d t =
     (let tname = Type.Name t in
      seq [lit ''<h3 id="'', act Attribute (Str (Type.Name t)), lit ''">type '',
           call (source_link fm (Type.Name t) (Type.Decl t)) (act Element),
           lit '' <a href="#'', act URL (Str (Type.Name t)),
           lit (''">'' @ pilcrow @ ''</a></h3>''), nl,
           tmpl_decl fm (Type.Doc t) (Type.Decl t),
           tmpl_example fm (index (Map (data.Examples d)) (Type.Name t)),
           range_slice (Type.Consts t) (\<lambda>v. tmpl_decl fm (Value.Doc v) (Value.Decl v)),
           range_slice (Type.Vars t) (\<lambda>v. tmpl_decl fm (Value.Doc v) (Value.Decl v)),
           range_slice (Type.Funcs t) (tmpl_func fm d),
           range_slice (Type.Methods t) (tmpl_method fm d tname)])\<close>

text \<open>Lines 370 to 377: the notes, marker by marker.\<close>

definition tmpl_notes :: "('n, 'e) FuncMap \<Rightarrow> 'n data \<Rightarrow> 'e exec" where
  \<open>tmpl_notes fm d =
     range_map (Package.Notes (Package d))
       (\<lambda>marker content.
          seq [lit ''<h2 id="pkg-note-'', act Attribute (Str marker), lit ''">'',
               act Element (Str marker), lit ''s <a href="#pkg-note-'', act URL (Str marker),
               lit (''">'' @ pilcrow @ ''</a></h2>'' @ [CHR 0x0A, CHR 0x09]
                    @ ''<ul style="padding-left: 20px; list-style: initial;">''), nl,
               range_slice content
                 (\<lambda>v. seq [lit ''<li style="margin: 6px 0 6px 0;">'',
                            call (render_doc fm (Note.Body v)) (act Element), lit ''</li>'']),
               lit ''</ul>'', nl])\<close>

text \<open>
  The template \<^verbatim>\<open>package\<close> (lines 246 to 377). The block of lines 267 to 367 runs when
  the package has a constant, a variable, a function or a type.
\<close>

definition htmlPackage :: "('n, 'e) FuncMap \<Rightarrow> 'n data \<Rightarrow> 'e exec" where
  "htmlPackage fm d =
     (let p = Package d in
      seq [act Element (Str []),
           tmpl_nav d,
           tmpl_overview fm d,
           if_then (Package.Consts p \<noteq> [] \<or> Package.Vars p \<noteq> []
                 \<or> Package.Funcs p \<noteq> [] \<or> Package.Types p \<noteq> [])
             (seq [tmpl_index fm d,
                   tmpl_examples_list d,
                   tmpl_consts fm d,
                   tmpl_vars fm d,
                   range_slice (Package.Funcs p) (tmpl_func fm d),
                   range_slice (Package.Types p) (tmpl_type fm d)]),
           tmpl_notes fm d])"

subsection \<open>The bounded buffer\<close>

text \<open>
  Modelled from the spec: \<^verbatim>\<open>limitBuffer\<close> and its \<^verbatim>\<open>Write\<close>, declared in a file of the
  package that is not among the sources. The spec's BoundedSink: a write always succeeds,
  appends to the underlying buffer and decrements \<open>remaining\<close> by the number of bytes,
  whatever its sign; \<open>remaining\<close> is the limit minus the bytes written so far. The counter
  has the type of the limit that \<open>Render\<close> assigns to it without a conversion (lines 40 and
  84 to 87), \<^verbatim>\<open>int64\<close>: a 64-bit word read as a signed number, and the decrement wraps
  around as Go's does.
\<close>

record limitBuffer =
  B :: string
  Remain :: "64 word"

definition Write :: "limitBuffer \<Rightarrow> string \<Rightarrow> limitBuffer" where
  "Write l p = l\<lparr>B := B l @ p, Remain := Remain l - word_of_nat (length p)\<rparr>"

text \<open>
  \<^verbatim>\<open>Execute\<close>: every piece of the run goes through \<open>Write\<close>, in order; the escaper of
  \<^verbatim>\<open>html/template\<close> is the parameter \<open>escape\<close>. The error of the run is returned with the
  buffer.
\<close>

definition bytes_of :: "(escaping \<Rightarrow> tvalue \<Rightarrow> string) \<Rightarrow> piece \<Rightarrow> string" where
  "bytes_of escape x = (case x of Text s \<Rightarrow> s | Action c v \<Rightarrow> escape c v)"

definition Execute ::
  "(escaping \<Rightarrow> tvalue \<Rightarrow> string) \<Rightarrow> 'e exec \<Rightarrow> limitBuffer \<Rightarrow> limitBuffer \<times> 'e option" where
  "Execute escape t buf = (foldl Write buf (map (bytes_of escape) (fst t)), snd t)"

subsection \<open>Render\<close>

record ('n, 'e) RenderOptions =
  SourceLinkFunc :: "'n \<Rightarrow> 'e + string"
  Limit :: "64 word"

text \<open>
  The errors \<open>Render\<close> returns: \<^verbatim>\<open>ErrTooLarge\<close>, wrapped by \<^verbatim>\<open>xerrors.Errorf\<close> with
  \<^verbatim>\<open>%w\<close>, or the error of the template formatted with \<^verbatim>\<open>%v\<close> into a new one.
\<close>

datatype 'e error = ErrTooLarge | Errorf_w string "'e error" | Errorf_v string 'e

definition megabyte :: "64 word" where
  "megabyte = 1000 * 1000"

text \<open>
  The caller's package is behind a pointer. The heap is the list of the packages
  allocated so far, an address is an index into it, and a pointer that is nil or dangling
  is an index outside it: dereferencing it panics. \<open>alloc\<close> is \<^verbatim>\<open>p2 := *p\<close>, a new
  object holding a copy; \<open>assign\<close> is an assignment to a field of the object at an address.
\<close>

type_synonym 'n heap = "'n Package list"

definition alloc :: "'n heap \<Rightarrow> 'n Package \<Rightarrow> nat \<times> 'n heap" where
  "alloc h v = (length h, h @ [v])"

definition assign :: "'n heap \<Rightarrow> nat \<Rightarrow> ('n Package \<Rightarrow> 'n Package) \<Rightarrow> 'n heap" where
  "assign h a f = h[a := f (h ! a)]"

text \<open>
  Lines 56 to 67: for a command, copy the package and clear the top-level declarations
  of the copy. The result is the pointer the rest of \<open>Render\<close> uses, and the heap.
\<close>

definition clearDecls :: "'n heap \<Rightarrow> nat \<Rightarrow> (nat \<times> 'n heap) option" where
  "clearDecls h p =
     (if \<not> p < length h then None
      else if Package.Name (h ! p) = ''main''
      then (let (p2, h) = alloc h (h ! p);
                h = assign h p2 (\<lambda>x. x\<lparr>Package.Consts := []\<rparr>);
                h = assign h p2 (\<lambda>x. x\<lparr>Package.Types := []\<rparr>);
                h = assign h p2 (\<lambda>x. x\<lparr>Package.Vars := []\<rparr>);
                h = assign h p2 (\<lambda>x. x\<lparr>Package.Funcs := []\<rparr>);
                h = assign h p2 (\<lambda>x. x\<lparr>Package.Examples := []\<rparr>)
            in Some (p2, h))
      else Some (p, h))"

text \<open>
  Lines 76 to 82: the closure \<^verbatim>\<open>sourceLink\<close>. A call of the resolver that fails is an error
  of the template.
\<close>

definition sourceLink :: "('n, 'e) RenderOptions \<Rightarrow> string \<Rightarrow> 'n \<Rightarrow> 'e + tvalue" where
  \<open>sourceLink opt name node =
     (case SourceLinkFunc opt node of
        Inl e \<Rightarrow> Inl e
      | Inr link \<Rightarrow>
          if link = [] then Inr (HTML name)
          else Inr (HTML (''<a class="Documentation-source" href="'' @ link @ ''">'' @ name
                          @ ''</a>'')))\<close>

text \<open>Lines 88 to 93: the function map bound to the clone of the template.\<close>

definition funcs :: "('n, 'e) Renderer \<Rightarrow> ('n, 'e) RenderOptions \<Rightarrow> ('n, 'e) FuncMap" where
  "funcs r opt =
     \<lparr>render_synopsis = Synopsis r, render_doc = DocHTML r, render_decl = DeclHTML r,
      render_code = CodeHTML r, source_link = sourceLink opt\<rparr>"

text \<open>
  Lines 69 to 102 without the buffer: the run of the template on the package and its
  examples. \<open>New\<close> is \<^verbatim>\<open>render.New\<close> with the options \<open>Render\<close> gives it. \<^const>\<open>None\<close> is
  a panic of \<open>collectExamples\<close>.
\<close>

definition walk ::
  "('f \<Rightarrow> 'n Package \<Rightarrow> ('n, 'e) Renderer) \<Rightarrow> 'f \<Rightarrow> ('n, 'e) RenderOptions \<Rightarrow> 'n Package
   \<Rightarrow> 'e exec option" where
  "walk New fset opt pkg =
     (let r = New fset pkg in
      case collectExamples pkg of
        None \<Rightarrow> None
      | Some exs \<Rightarrow>
          Some (htmlPackage (funcs r opt)
                  \<lparr>RootURL = ''/pkg'', Package = pkg, Examples = exs\<rparr>))"

text \<open>
  \<open>Render\<close>. The result is Go's pair of the bytes and the error (nil is the empty string
  and \<^const>\<open>None\<close>), or \<^const>\<open>None\<close> for a panic, together with the heap it leaves.
\<close>

definition Render ::
  "(escaping \<Rightarrow> tvalue \<Rightarrow> string) \<Rightarrow> ('f \<Rightarrow> 'n Package \<Rightarrow> ('n, 'e) Renderer) \<Rightarrow> 'n heap
   \<Rightarrow> 'f \<Rightarrow> nat \<Rightarrow> ('n, 'e) RenderOptions \<Rightarrow> (string \<times> 'e error option) option \<times> 'n heap" where
  "Render escape New h fset p opt =
     (let opt = (if Limit opt = 0 then opt\<lparr>Limit := 10 * megabyte\<rparr> else opt) in
      case clearDecls h p of
        None \<Rightarrow> (None, h)
      | Some (p, h) \<Rightarrow>
          (let buf = \<lparr>B = [], Remain = Limit opt\<rparr> in
           case walk New fset opt (h ! p) of
             None \<Rightarrow> (None, h)
           | Some t \<Rightarrow>
               (let (buf, err) = Execute escape t buf in
                if sint (Remain buf) < 0
                then (Some ([], Some (Errorf_w ''dochtml.Render: '' ErrTooLarge)), h)
                else (case err of
                        Some e \<Rightarrow> (Some ([], Some (Errorf_v ''dochtml.Render: '' e)), h)
                      | None \<Rightarrow> (Some (B buf, None), h)))))"

section \<open>What the specification says\<close>

text \<open>
  Definitions that follow the words of the specification, to compare with the program.
  The identifier as a plain string, by the four rows of the table.
\<close>

definition idString :: "string \<Rightarrow> string \<Rightarrow> string" where
  "idString id' suffix =
     (if id' = []
      then (if suffix = [] then ''example-package'' else ''example-package-'' @ suffix)
      else (if suffix = [] then ''example-'' @ id' else ''example-'' @ id' @ ''-'' @ suffix))"

text \<open>
  Discovery order, as pairs of the parent identifier and the example: the examples of the
  package with the empty parent, then those of each function under the function's name,
  then type by type: the type's own under the type's name, those of each function of the
  type under the function's bare name, those of each method under type, dot, method.
\<close>

definition spec_funcExamples :: "'n Func \<Rightarrow> (string \<times> 'n Example) list" where
  "spec_funcExamples f = map (Pair (Func.Name f)) (Func.Examples f)"

definition spec_methodExamples :: "string \<Rightarrow> 'n Func \<Rightarrow> (string \<times> 'n Example) list" where
  "spec_methodExamples tname m = map (Pair (tname @ ''.'' @ Func.Name m)) (Func.Examples m)"

definition spec_typeExamples :: "'n Type \<Rightarrow> (string \<times> 'n Example) list" where
  "spec_typeExamples t =
     map (Pair (Type.Name t)) (Type.Examples t)
     @ concat (map spec_funcExamples (Type.Funcs t))
     @ concat (map (spec_methodExamples (Type.Name t)) (Type.Methods t))"

definition spec_discovery :: "'n Package \<Rightarrow> (string \<times> 'n Example) list" where
  "spec_discovery p =
     map (Pair []) (Package.Examples p)
     @ concat (map spec_funcExamples (Package.Funcs p))
     @ concat (map spec_typeExamples (Package.Types p))"

text \<open>The indexed example of a pair, and the index of a list of indexed examples.\<close>

definition spec_example :: "string \<times> 'n Example \<Rightarrow> 'n example" where
  "spec_example pe =
     \<lparr>Example = snd pe, ID = idString (fst pe) (Example.Suffix (snd pe)),
      ParentID = fst pe, Suffix = Example.Suffix (snd pe)\<rparr>"

definition byParent :: "'n example list \<Rightarrow> string \<rightharpoonup> 'n example list" where
  "byParent l k =
     (case filter (\<lambda>e. ParentID e = k) l of [] \<Rightarrow> None | e # es \<Rightarrow> Some (e # es))"

definition indexed :: "'n example list \<Rightarrow> 'n examples" where
  "indexed l = \<lparr>List = l, Map = byParent l\<rparr>"

text \<open>
  The bytes a run has written, the limit in force (zero stands for ten million), what
  remains of a limit after a run (the limit minus the bytes written, in 64 bits), the copy
  of a command with its declarations cleared, the package step 1 hands on, and the outcome
  of step 4: the oversized output, which is a negative remainder, first, then the error of
  the run, then the bytes.
\<close>

definition written :: "(escaping \<Rightarrow> tvalue \<Rightarrow> string) \<Rightarrow> 'e exec \<Rightarrow> string" where
  "written escape t = concat (map (bytes_of escape) (fst t))"

definition spec_limit :: "('n, 'e) RenderOptions \<Rightarrow> 64 word" where
  "spec_limit opt = (if Limit opt = 0 then 10000000 else Limit opt)"

definition spec_remaining ::
  "(escaping \<Rightarrow> tvalue \<Rightarrow> string) \<Rightarrow> 64 word \<Rightarrow> 'e exec \<Rightarrow> 64 word" where
  "spec_remaining escape limit t = limit - word_of_nat (length (written escape t))"

definition suppressed :: "'n Package \<Rightarrow> 'n Package" where
  "suppressed pkg =
     pkg\<lparr>Package.Consts := [], Package.Types := [], Package.Vars := [], Package.Funcs := [],
         Package.Examples := []\<rparr>"

definition spec_entry :: "'n Package \<Rightarrow> 'n Package" where
  "spec_entry pkg = (if Package.Name pkg = ''main'' then suppressed pkg else pkg)"

definition spec_outcome ::
  "(escaping \<Rightarrow> tvalue \<Rightarrow> string) \<Rightarrow> 64 word \<Rightarrow> 'e exec \<Rightarrow> string \<times> 'e error option" where
  "spec_outcome escape limit t =
     (if sint (spec_remaining escape limit t) < 0
      then ([], Some (Errorf_w ''dochtml.Render: '' ErrTooLarge))
      else (case snd t of
              Some e \<Rightarrow> ([], Some (Errorf_v ''dochtml.Render: '' e))
            | None \<Rightarrow> (written escape t, None)))"

text \<open>
  The text nodes that open an anchor of a declaration or of an example: the heading of a
  function, type or method, the entry of one in the index or in the list of examples, and
  the block of an example.
\<close>

definition declAnchor :: "piece \<Rightarrow> bool" where
  \<open>declAnchor x =
     (x = Text ''<h3 id="'' \<or> x = Text ''<li><a href="#'' \<or> x = Text ''<details id="'')\<close>

text \<open>
  The list of examples as the specification describes it: an entry per example, labelled
  by the parent identifier, or \<open>Package\<close> when that is empty, followed by the suffix in
  parentheses when there is one.
\<close>

definition spec_list_entry :: "'n example \<Rightarrow> piece list" where
  \<open>spec_list_entry e =
     [Text ''<li><a href="#'', Action URL (Str (ID e)), Text ''">'',
      Action Element (Str (if ParentID e = [] then ''Package'' else ParentID e))]
     @ (if example.Suffix e = [] then []
        else [Text '' ('', Action Element (Str (example.Suffix e)), Text '')''])
     @ [Text ''</a></li>'', Action Element (Str [CHR 0x0A])]\<close>

definition spec_examples_list :: "'n example list \<Rightarrow> piece list" where
  \<open>spec_examples_list l =
     [Text examples_heading, Action Element (Str [CHR 0x0A]),
      Text ''<ul>'', Action Element (Str [CHR 0x0A])]
     @ concat (map spec_list_entry l)
     @ [Text ''</ul>'', Action Element (Str [CHR 0x0A])]\<close>

section \<open>Sample inputs\<close>

text \<open>
  Concrete examples, packages, renderers and options on which the theorems below are
  instantiated: an escaper that leaves every value as it is, a renderer whose hooks all
  succeed and one whose \<^verbatim>\<open>DocHTML\<close> fails, a library with documentation only, a command
  with declarations, a library with nothing but a package example, a library with a
  function, and two orders of one map of notes.
\<close>

definition exampleZ :: "string \<Rightarrow> string \<Rightarrow> unit example" where
  "exampleZ parent suffix =
     \<lparr>Example = \<lparr>Example.Suffix = suffix, Doc = [], Code = (), Comments = [], Output = [],
                  Unordered = False, EmptyOutput = False\<rparr>,
      ID = idString parent suffix, ParentID = parent, Suffix = suffix\<rparr>"

definition escape0 :: "escaping \<Rightarrow> tvalue \<Rightarrow> string" where
  "escape0 c v = (case v of Str s \<Rightarrow> s | HTML s \<Rightarrow> s)"

definition rendererOK :: "(unit, string) Renderer" where
  "rendererOK =
     \<lparr>Synopsis = (\<lambda>n. Inr (Str ''synopsis'')), DocHTML = (\<lambda>d. Inr (HTML d)),
      DeclHTML = (\<lambda>d n. Inr \<lparr>decl_out.Doc = HTML d, Decl = HTML ''decl''\<rparr>),
      CodeHTML = (\<lambda>c. Inr (HTML ''code''))\<rparr>"

definition rendererFail :: "(unit, string) Renderer" where
  "rendererFail = rendererOK\<lparr>DocHTML := (\<lambda>d. Inl ''boom'')\<rparr>"

definition optsOK :: "64 word \<Rightarrow> (unit, string) RenderOptions" where
  "optsOK l = \<lparr>SourceLinkFunc = (\<lambda>n. Inr []), Limit = l\<rparr>"

definition pkgDoc :: "unit Package" where
  "pkgDoc = \<lparr>Package.Doc = ''x'', Name = ''lib'', Notes = [], Consts = [], Types = [],
             Vars = [], Funcs = [], Examples = []\<rparr>"


definition exampleMain :: "unit Example" where
  "exampleMain = \<lparr>Example.Suffix = [], Doc = [], Code = (), Comments = [], Output = ''hi'',
                   Unordered = False, EmptyOutput = False\<rparr>"

definition pkgMain :: "unit Package" where
  "pkgMain =
     \<lparr>Package.Doc = ''Command x.'', Name = ''main'',
      Notes = [(''BUG'', [\<lparr>Body = ''b''\<rparr>])],
      Consts = [],
      Types = [\<lparr>Type.Doc = [], Name = ''T'', Decl = (), Consts = [], Vars = [], Funcs = [],
                Methods = [\<lparr>Func.Doc = [], Name = ''M'', Decl = (), Recv = ''T'',
                            Examples = [exampleMain]\<rparr>],
                Examples = []\<rparr>],
      Vars = [],
      Funcs = [\<lparr>Func.Doc = [], Name = ''main'', Decl = (), Recv = [], Examples = []\<rparr>],
      Examples = [exampleMain]\<rparr>"

definition newOK :: "unit \<Rightarrow> unit Package \<Rightarrow> (unit, string) Renderer" where
  "newOK fset p = rendererOK"

definition pkgExamplesOnly :: "unit Package" where
  "pkgExamplesOnly =
     \<lparr>Package.Doc = [], Name = ''lib'', Notes = [], Consts = [], Types = [], Vars = [],
      Funcs = [], Examples = [exampleMain]\<rparr>"

definition exsExamplesOnly :: "unit examples" where
  "exsExamplesOnly = indexed [spec_example ([], exampleMain)]"

definition walkExamplesOnly :: "string exec" where
  "walkExamplesOnly =
     htmlPackage (funcs rendererOK (optsOK 0))
       \<lparr>RootURL = ''/pkg'', Package = pkgExamplesOnly, Examples = exsExamplesOnly\<rparr>"

definition exampleBasic :: "unit Example" where
  "exampleBasic = \<lparr>Example.Suffix = ''basic'', Doc = [], Code = (), Comments = [],
                    Output = [], Unordered = False, EmptyOutput = False\<rparr>"

definition pkgRing :: "unit Package" where
  "pkgRing =
     \<lparr>Package.Doc = ''Package ring.'', Name = ''ring'', Notes = [], Consts = [], Types = [],
      Vars = [],
      Funcs = [\<lparr>Func.Doc = [], Name = ''New'', Decl = (), Recv = [],
                Examples = [exampleBasic]\<rparr>],
      Examples = [exampleMain]\<rparr>"

definition notesA :: "(string \<times> Note list) list" where
  "notesA = [(''TODO'', [\<lparr>Body = ''later''\<rparr>]), (''BUG'', [\<lparr>Body = ''b''\<rparr>])]"

definition notesB :: "(string \<times> Note list) list" where
  "notesB = [(''BUG'', [\<lparr>Body = ''b''\<rparr>]), (''TODO'', [\<lparr>Body = ''later''\<rparr>])]"

section \<open>Properties\<close>

subsection \<open>The identifier function\<close>

text \<open>
  Claim C1. For every pair of strings the identifier is the one of the four-row table:
  \<open>example-package\<close> when parent and suffix are both empty, \<open>example-package-\<close> followed
  by the suffix when only the parent is empty, \<open>example-\<close> followed by the parent when only
  the suffix is empty, and \<open>example-\<close>, the parent, \<open>-\<close> and the suffix otherwise. The
  result is a function of the two arguments alone.
\<close>

theorem exampleID_table:
  "exampleID id' suffix =
     Some (if id' = []
           then (if suffix = [] then ''example-package'' else ''example-package-'' @ suffix)
           else (if suffix = [] then ''example-'' @ id'
                 else ''example-'' @ id' @ ''-'' @ suffix))"
  by (simp add: exampleID_def)

text \<open>
  Claim C10. The identifier function never panics: one of the four cases always applies, so
  the \<^verbatim>\<open>default\<close> branch is never taken and a string is returned.
\<close>

theorem exampleID_never_panics: "\<exists>s. exampleID id' suffix = Some s"
proof (cases "id' = []"; cases "suffix = []")
qed (simp_all add: exampleID_def)

subsection \<open>The index of examples\<close>

lemma index_byParent: "index (byParent l) k = filter (\<lambda>e. ParentID e = k) l"
  by (simp add: index_def byParent_def split: list.splits)

lemma byParent_snoc:
  "(byParent l)(ParentID e \<mapsto> index (byParent l) (ParentID e) @ [e]) = byParent (l @ [e])"
  by (rule ext) (simp add: index_byParent, simp add: byParent_def split: list.splits)

lemma exampleID_idString: "exampleID id' suffix = Some (idString id' suffix)"
  by (simp add: exampleID_def idString_def)

lemma addExample_indexed:
  "addExample id' (indexed l) ex = Some (indexed (l @ [spec_example (id', ex)]))"
proof -
  have "(byParent l)(id' \<mapsto> index (byParent l) id' @ [spec_example (id', ex)])
        = byParent (l @ [spec_example (id', ex)])"
    using byParent_snoc [of l "spec_example (id', ex)"] by (simp add: spec_example_def)
  then show ?thesis
    by (simp add: addExample_def exampleID_idString indexed_def spec_example_def Let_def)
qed

lemma forRange_addExample:
  "forRange (addExample id') (indexed l) xs
   = Some (indexed (l @ map spec_example (map (Pair id') xs)))"
  by (induction xs arbitrary: l) (simp_all add: addExample_indexed)

lemma forRange_append_step:
  assumes "\<And>l x. body (indexed l) x = Some (indexed (l @ map spec_example (g x)))"
  shows "forRange body (indexed l) xs
         = Some (indexed (l @ map spec_example (concat (map g xs))))"
  by (induction xs arbitrary: l) (simp_all add: assms)

lemma collectFunc_indexed:
  "collectFunc (indexed l) f = Some (indexed (l @ map spec_example (spec_funcExamples f)))"
  by (simp add: collectFunc_def forRange_addExample spec_funcExamples_def)

lemma collectMethod_indexed:
  "collectMethod tname (indexed l) m
   = Some (indexed (l @ map spec_example (spec_methodExamples tname m)))"
  by (simp add: collectMethod_def forRange_addExample spec_methodExamples_def)

lemma collectType_indexed:
  "collectType (indexed l) t = Some (indexed (l @ map spec_example (spec_typeExamples t)))"
  by (simp add: collectType_def forRange_addExample spec_typeExamples_def
      forRange_append_step [where g = spec_funcExamples, OF collectFunc_indexed]
      forRange_append_step [where g = "spec_methodExamples (Type.Name t)", OF collectMethod_indexed])

lemma indexed_Nil: "\<lparr>List = [], Map = Map.empty\<rparr> = indexed []"
  by (simp add: indexed_def byParent_def fun_eq_iff)

lemma collectLoops_indexed:
  "collectLoops p = Some (indexed (map spec_example (spec_discovery p)))"
  by (simp add: collectLoops_def indexed_Nil forRange_addExample spec_discovery_def
      forRange_append_step [where g = spec_funcExamples, OF collectFunc_indexed]
      forRange_append_step [where g = spec_typeExamples, OF collectType_indexed])

text \<open>
  Claim C6. The loops visit the examples of the package first, then those of each
  function, then type by type the type's own examples, those of the functions attached to
  the type and those of its methods; the parent identifier is empty for the package, the
  function's name for a function, the type's name for a type, the bare name of the function
  for a function attached to a type, and type, dot, method for a method.
\<close>

theorem discovery_order:
  "\<exists>exs. collectLoops p = Some exs
     \<and> map (\<lambda>e. (ParentID e, Example e)) (List exs) = spec_discovery p"
  by (simp add: collectLoops_indexed indexed_def spec_example_def comp_def)

lemma insertStable_insort_key:
  "insertStable (\<lambda>a b. f a < f b) x ys = insort_key f x ys"
  for f :: "'a \<Rightarrow> 'b::linorder"
  by (induction ys) (auto simp: not_less)

lemma SliceStable_sort_key:
  "SliceStable (\<lambda>a b. f a < f b) xs = sort_key f xs"
  for f :: "'a \<Rightarrow> 'b::linorder"
  by (induction xs) (simp_all add: SliceStable_def insertStable_insort_key sort_key_def)

lemma collectExamples_sort_key:
  "collectExamples p =
     Some \<lparr>List = sort_key ParentID (map spec_example (spec_discovery p)),
           Map = byParent (map spec_example (spec_discovery p))\<rparr>"
  by (simp add: collectExamples_def collectLoops_indexed SliceStable_sort_key indexed_def)


text \<open>
  Claim C2. The final list is the stable sort of the discovery order by parent identifier:
  it is sorted by \<open>ParentID\<close> in the bytewise lexicographic order, it has the same
  entries, and the entries of any one parent keep their order of discovery. For the
  discovery order A, B, C with parents \<open>Z\<close>, empty and \<open>Z\<close> the sort gives B, A, C.
\<close>

theorem collectExamples_stable_sort:
  "(\<exists>d exs. collectLoops p = Some d \<and> collectExamples p = Some exs
      \<and> sorted (map ParentID (List exs))
      \<and> mset (List exs) = mset (List d)
      \<and> (\<forall>k. filter (\<lambda>e. ParentID e = k) (List exs) = filter (\<lambda>e. ParentID e = k) (List d))
      \<and> List exs = sort_key ParentID (List d))
   \<and> (\<forall>A B C :: 'n example.
         ParentID A = ''Z'' \<and> ParentID B = [] \<and> ParentID C = ''Z''
         \<longrightarrow> SliceStable (\<lambda>a b. ParentID a < ParentID b) [A, B, C] = [B, A, C])"
proof (intro conjI allI impI)
  let ?d = "map spec_example (spec_discovery p)"
  have "collectLoops p = Some (indexed ?d)"
    by (rule collectLoops_indexed)
  moreover have "collectExamples p = Some \<lparr>List = sort_key ParentID ?d, Map = byParent ?d\<rparr>"
    by (rule collectExamples_sort_key)
  moreover have "filter (\<lambda>e. ParentID e = k) (sort_key ParentID ?d)
                 = filter (\<lambda>e. ParentID e = k) ?d" for k
    by (rule sort_key_stable)
  ultimately show "\<exists>d exs. collectLoops p = Some d \<and> collectExamples p = Some exs
      \<and> sorted (map ParentID (List exs))
      \<and> mset (List exs) = mset (List d)
      \<and> (\<forall>k. filter (\<lambda>e. ParentID e = k) (List exs) = filter (\<lambda>e. ParentID e = k) (List d))
      \<and> List exs = sort_key ParentID (List d)"
    by (simp add: indexed_def)
next
  fix A B C :: "'n example"
  assume "ParentID A = ''Z'' \<and> ParentID B = [] \<and> ParentID C = ''Z''"
  then show "SliceStable (\<lambda>a b. ParentID a < ParentID b) [A, B, C] = [B, A, C]"
    by (simp add: SliceStable_def)
qed

theorem collectExamples_stable_sort_witness:
  "SliceStable (\<lambda>a b. ParentID a < ParentID b)
     [exampleZ ''Z'' ''a'', exampleZ [] ''b'', exampleZ ''Z'' ''c'']
   = [exampleZ [] ''b'', exampleZ ''Z'' ''a'', exampleZ ''Z'' ''c'']"
proof -
  have "ParentID (exampleZ ''Z'' ''a'') = ''Z'' \<and> ParentID (exampleZ [] ''b'') = []
        \<and> ParentID (exampleZ ''Z'' ''c'') = ''Z''"
    by (simp add: exampleZ_def)
  with collectExamples_stable_sort [where ?'n = unit] show ?thesis
    by blast
qed

subsection \<open>The outcome of Render\<close>

lemma foldl_Write:
  "foldl Write buf ps
   = buf\<lparr>B := B buf @ concat ps, Remain := Remain buf - word_of_nat (length (concat ps))\<rparr>"
  by (induction ps arbitrary: buf) (simp_all add: Write_def)

lemma Execute_written:
  "Execute escape t \<lparr>B = [], Remain = limit\<rparr>
   = (\<lparr>B = written escape t, Remain = spec_remaining escape limit t\<rparr>, snd t)"
  by (simp add: Execute_def foldl_Write written_def spec_remaining_def)

lemma default_limit: "10 * megabyte = 10000000"
  by (simp add: megabyte_def)



lemma clearDecls_entry:
  "p < length h \<Longrightarrow>
   clearDecls h p
   = Some (if Package.Name (h ! p) = ''main'' then (length h, h @ [suppressed (h ! p)])
           else (p, h))"
  by (simp add: clearDecls_def alloc_def assign_def suppressed_def Let_def)


lemma walk_total:
  "\<exists>t. walk New fset opt pkg = Some t"
  by (simp add: walk_def collectExamples_sort_key)

lemma sourceLink_Limit: "sourceLink (opt\<lparr>Limit := l\<rparr>) = sourceLink opt"
  by (rule ext, rule ext) (simp add: sourceLink_def)

lemma funcs_Limit: "funcs r (opt\<lparr>Limit := l\<rparr>) = funcs r opt"
  by (simp add: funcs_def sourceLink_Limit)

lemma walk_Limit: "walk New fset (opt\<lparr>Limit := l\<rparr>) pkg = walk New fset opt pkg"
  unfolding walk_def funcs_Limit ..

lemma clearDecls_points_to_entry:
  assumes "p < length h"
  obtains p' where "clearDecls h p
                    = Some (p', if Package.Name (h ! p) = ''main''
                                then h @ [suppressed (h ! p)] else h)"
    and "(if Package.Name (h ! p) = ''main'' then h @ [suppressed (h ! p)] else h) ! p'
         = spec_entry (h ! p)"
  using assms by (cases "Package.Name (h ! p) = ''main''") (simp_all add: clearDecls_entry spec_entry_def)

lemma Render_outcome:
  assumes "p < length h" and "walk New fset opt (spec_entry (h ! p)) = Some t"
  shows "Render escape New h fset p opt
         = (Some (spec_outcome escape (spec_limit opt) t),
            if Package.Name (h ! p) = ''main'' then h @ [suppressed (h ! p)] else h)"
proof -
  define h' where "h' = (if Package.Name (h ! p) = ''main'' then h @ [suppressed (h ! p)] else h)"
  obtain p' where cd: "clearDecls h p = Some (p', h')" and at: "h' ! p' = spec_entry (h ! p)"
    using clearDecls_points_to_entry [OF assms(1)] unfolding h'_def by metis
  define opt' where "opt' = (if Limit opt = 0 then opt\<lparr>Limit := 10 * megabyte\<rparr> else opt)"
  have w: "walk New fset opt' (h' ! p') = Some t"
    using assms(2) at by (simp add: opt'_def walk_Limit)
  have l: "Limit opt' = spec_limit opt"
    by (simp add: opt'_def spec_limit_def default_limit)
  have "Render escape New h fset p opt
        = (Some (spec_outcome escape (Limit opt') t), h')"
    unfolding Render_def opt'_def [symmetric] Let_def cd
    by (simp add: w Execute_written spec_outcome_def split: option.splits)
  then show ?thesis
    by (simp add: l h'_def)
qed

lemmas exec_defs = seq_def andThen_def lit_def act_def call_def if_then_def range_slice_def
  range_map_def with_string_def nl_def

lemma walk_pkgDoc_fail:
  "\<exists>ps. walk (\<lambda>f p. rendererFail) () (optsOK l) pkgDoc = Some (ps, Some ''boom'')
     \<and> length (written escape0 (ps, Some ''boom'')) = 125"
  by (simp add: walk_def collectExamples_sort_key spec_discovery_def pkgDoc_def htmlPackage_def
      tmpl_nav_def tmpl_overview_def tmpl_notes_def exec_defs funcs_def rendererFail_def
      rendererOK_def written_def bytes_of_def escape0_def Let_def pilcrow_def)

lemma in_lit: "x \<in> set (fst (lit s)) \<longleftrightarrow> x = Text s"
  by (auto simp: lit_def)

lemma in_act: "x \<in> set (fst (act c v)) \<longleftrightarrow> x = Action c v"
  by (auto simp: act_def)

lemma in_nl: "x \<in> set (fst nl) \<longleftrightarrow> x = Action Element (Str [CHR 0x0A])"
  by (simp add: nl_def in_act)

lemma in_andThen: "x \<in> set (fst (andThen a b)) \<Longrightarrow> x \<in> set (fst a) \<or> x \<in> set (fst b)"
  by (auto simp: andThen_def split: option.splits)

lemma seq_Nil: "seq [] = ([], None)"
  by (simp add: seq_def)

lemma seq_Cons: "seq (t # ts) = andThen t (seq ts)"
  by (simp add: seq_def)

lemma in_if_then: "x \<in> set (fst (if_then c a)) \<Longrightarrow> c \<and> x \<in> set (fst a)"
  by (auto simp: if_then_def split: if_splits)

lemma in_with_string:
  "x \<in> set (fst (with_string s body)) \<Longrightarrow> s \<noteq> [] \<and> x \<in> set (fst (body s))"
  by (auto simp: with_string_def dest: in_if_then)

lemma in_call: "x \<in> set (fst (call r k)) \<Longrightarrow> \<exists>v. r = Inr v \<and> x \<in> set (fst (k v))"
  by (auto simp: call_def split: sum.splits)

lemma in_range_slice:
  "x \<in> set (fst (range_slice xs body)) \<Longrightarrow> \<exists>y \<in> set xs. x \<in> set (fst (body y))"
  by (induction xs) (auto simp: range_slice_def seq_Nil seq_Cons dest: in_andThen)

lemma range_map_slice:
  "range_map m body = range_slice (sort_key fst m) (\<lambda>kv. body (fst kv) (snd kv))"
  by (simp add: range_map_def range_slice_def)

lemma in_range_map:
  "x \<in> set (fst (range_map m body)) \<Longrightarrow> \<exists>k v. (k, v) \<in> set m \<and> x \<in> set (fst (body k v))"
  unfolding range_map_slice by (fastforce dest: in_range_slice)

lemmas in_exec = in_andThen in_if_then in_with_string in_call in_range_slice in_range_map

lemmas in_simps = seq_Nil seq_Cons in_lit in_act in_nl

lemma tmpl_example_Nil: "tmpl_example fm [] = ([], None)"
  by (simp add: tmpl_example_def range_slice_def seq_Nil)

lemma collectExamples_suppressed:
  "collectExamples (suppressed pkg) = Some (indexed [])"
  by (simp add: collectExamples_sort_key spec_discovery_def suppressed_def indexed_def)

lemma nav_no_anchor:
  assumes "List (data.Examples d) = []" "Package.Funcs (Package d) = []"
    "Package.Types (Package d) = []"
  shows "x \<in> set (fst (tmpl_nav d)) \<Longrightarrow> \<not> declAnchor x"
  using assms
  by (auto simp: tmpl_nav_def Let_def declAnchor_def in_simps dest!: in_exec)

lemma overview_no_anchor:
  assumes "index (Map (data.Examples d)) [] = []"
  shows "x \<in> set (fst (tmpl_overview fm d)) \<Longrightarrow> \<not> declAnchor x"
  using assms
  by (auto simp: tmpl_overview_def Let_def declAnchor_def in_simps tmpl_example_Nil
      pilcrow_def dest!: in_exec)

lemma notes_no_anchor:
  "x \<in> set (fst (tmpl_notes fm d)) \<Longrightarrow> \<not> declAnchor x"
  by (auto simp: tmpl_notes_def Let_def declAnchor_def in_simps pilcrow_def
      dest!: in_exec)

lemma htmlPackage_suppressed_no_anchor:
  fixes fm :: "('n, 'e) FuncMap"
  assumes "x \<in> set (fst (htmlPackage fm \<lparr>RootURL = u, Package = suppressed pkg,
                                          Examples = indexed []\<rparr>))"
  shows "\<not> declAnchor x"
proof -
  let ?d = "\<lparr>RootURL = u, Package = suppressed pkg, Examples = indexed []\<rparr>"
  have "x \<in> set (fst (act Element (Str []) :: 'e exec)) \<or> x \<in> set (fst (tmpl_nav ?d :: 'e exec))
        \<or> x \<in> set (fst (tmpl_overview fm ?d)) \<or> x \<in> set (fst (tmpl_notes fm ?d))"
    using assms
    by (auto simp: htmlPackage_def Let_def suppressed_def in_simps dest!: in_exec)
  moreover have "\<not> declAnchor y" if "y \<in> set (fst (tmpl_nav ?d :: 'e exec))" for y
    using that by (rule nav_no_anchor [rotated 3]) (simp_all add: suppressed_def indexed_def)
  moreover have "\<not> declAnchor y" if "y \<in> set (fst (tmpl_overview fm ?d))" for y
    using that
    by (rule overview_no_anchor [rotated]) (simp add: indexed_def index_byParent)
  ultimately show ?thesis
    by (auto simp: in_act declAnchor_def dest: notes_no_anchor)
qed

text \<open>
  Claim C3. For a package behind a valid pointer, with \<open>t\<close> the run of the template:
  when the ceiling of the buffer was exceeded, that is, when its 64-bit counter of what
  remains of the limit is negative after the run, \<open>Render\<close> fails with the wrapped
  \<^verbatim>\<open>ErrTooLarge\<close>, whether or not the run also failed; otherwise, when the run failed,
  with the error of the run formatted into a new one; otherwise it returns the bytes
  written. On either failure the bytes returned are nil.
\<close>

theorem Render_outcome_precedence:
  assumes "p < length h"
  shows "\<exists>t. walk New fset opt (spec_entry (h ! p)) = Some t
           \<and> fst (Render escape New h fset p opt)
             = Some (if sint (spec_remaining escape (spec_limit opt) t) < 0
                     then ([], Some (Errorf_w ''dochtml.Render: '' ErrTooLarge))
                     else (case snd t of
                             Some e \<Rightarrow> ([], Some (Errorf_v ''dochtml.Render: '' e))
                           | None \<Rightarrow> (written escape t, None)))"
proof -
  obtain t where t: "walk New fset opt (spec_entry (h ! p)) = Some t"
    using walk_total [of New fset opt "spec_entry (h ! p)"] by blast
  from Render_outcome [OF assms t] show ?thesis
    by (auto simp: t spec_outcome_def)
qed

theorem Render_outcome_precedence_witness:
  "fst (Render escape0 (\<lambda>f p. rendererFail) [pkgDoc] () 0 (optsOK 1))
   = Some ([], Some (Errorf_w ''dochtml.Render: '' ErrTooLarge))
   \<and> (\<exists>ps. walk (\<lambda>f p. rendererFail) () (optsOK 1) pkgDoc = Some (ps, Some ''boom''))"
proof -
  have "(0::nat) < length [pkgDoc]"
    by simp
  from Render_outcome_precedence [OF this, of "\<lambda>f p. rendererFail" "()" "optsOK 1" escape0]
    walk_pkgDoc_fail [of 1]
  show ?thesis
    by (auto simp: spec_entry_def spec_limit_def spec_remaining_def optsOK_def pkgDoc_def)
qed

subsection \<open>The limit and the suppression of declarations\<close>











text \<open>
  Claim C5. For a package named \<open>main\<close> behind a valid pointer: the template runs on a
  copy with constants, types, variables, functions and examples cleared, stored at a new
  address; the documentation text and the notes of the copy are those of the original;
  every object of the caller's heap, the original package among them, is unchanged after
  the call; and the run writes no text that opens an anchor of a function, a type, a
  method or an example.
\<close>

theorem Render_main_suppression:
  assumes "p < length h" and "Package.Name (h ! p) = ''main''"
  shows "\<exists>t. walk New fset opt (suppressed (h ! p)) = Some t
           \<and> Render escape New h fset p opt
             = (Some (spec_outcome escape (spec_limit opt) t), h @ [suppressed (h ! p)])
           \<and> (\<forall>x \<in> set (fst t). \<not> declAnchor x)
           \<and> (\<forall>a < length h. snd (Render escape New h fset p opt) ! a = h ! a)
           \<and> Package.Doc (suppressed (h ! p)) = Package.Doc (h ! p)
           \<and> Package.Notes (suppressed (h ! p)) = Package.Notes (h ! p)"
proof -
  let ?c = "suppressed (h ! p)"
  define t where "t = htmlPackage (funcs (New fset ?c) opt)
                        \<lparr>RootURL = ''/pkg'', Package = ?c, Examples = indexed []\<rparr>"
  have w: "walk New fset opt ?c = Some t"
    by (simp add: walk_def collectExamples_suppressed t_def)
  then have "walk New fset opt (spec_entry (h ! p)) = Some t"
    using assms(2) by (simp add: spec_entry_def)
  from Render_outcome [OF assms(1) this, of escape]
  have r: "Render escape New h fset p opt
           = (Some (spec_outcome escape (spec_limit opt) t), h @ [?c])"
    using assms(2) by simp
  have "\<not> declAnchor x" if "x \<in> set (fst t)" for x
    using that unfolding t_def by (rule htmlPackage_suppressed_no_anchor)
  with w r show ?thesis
    by (simp add: nth_append suppressed_def)
qed

lemma walk_pkgMain:
  "\<exists>t. walk (\<lambda>f p. rendererOK) () (optsOK l) (suppressed pkgMain) = Some t \<and> snd t = None
     \<and> length (written escape0 t) = 299"
  by (simp add: walk_def collectExamples_sort_key spec_discovery_def suppressed_def pkgMain_def
      htmlPackage_def tmpl_nav_def tmpl_overview_def tmpl_notes_def exec_defs funcs_def
      rendererOK_def written_def bytes_of_def escape0_def Let_def tmpl_example_Nil index_def
      byParent_def pilcrow_def)

theorem Render_main_suppression_witness:
  "snd (Render escape0 (\<lambda>f p. rendererOK) [pkgMain] () 0 (optsOK 0))
   = [pkgMain, suppressed pkgMain]
   \<and> Package.Funcs pkgMain \<noteq> [] \<and> Package.Types pkgMain \<noteq> []
   \<and> Package.Examples pkgMain \<noteq> []
   \<and> (\<exists>bs. fst (Render escape0 (\<lambda>f p. rendererOK) [pkgMain] () 0 (optsOK 0)) = Some (bs, None)
         \<and> length bs = 299)"
proof -
  have v: "(0::nat) < length [pkgMain]" and m: "Package.Name ([pkgMain] ! 0) = ''main''"
    by (simp_all add: pkgMain_def)
  have l: "spec_limit (optsOK 0) = 10000000"
    by (simp add: spec_limit_def optsOK_def)
  have d: "Package.Funcs pkgMain \<noteq> [] \<and> Package.Types pkgMain \<noteq> []
           \<and> Package.Examples pkgMain \<noteq> []"
    by (simp add: pkgMain_def)
  from Render_main_suppression [OF v m, of "\<lambda>f p. rendererOK" "()" "optsOK 0" escape0]
    walk_pkgMain [of 0] d
  show ?thesis
    by (auto simp: l spec_outcome_def spec_remaining_def)
qed

subsection \<open>The list of examples in the document\<close>

lemma andThen_ok:
  "snd (andThen a b) = None \<longleftrightarrow> snd a = None \<and> snd b = None"
  by (auto simp: andThen_def split: option.splits)

lemma fst_andThen_ok: "snd a = None \<Longrightarrow> fst (andThen a b) = fst a @ fst b"
  by (simp add: andThen_def)

lemma andThen_pure: "andThen (xs, None) (ys, r) = (xs @ ys, r)"
  by (simp add: andThen_def)

lemma range_slice_pure:
  assumes "\<And>x. body x = (g x, None)"
  shows "range_slice xs body = (concat (map g xs), None)"
  by (induction xs) (simp_all add: range_slice_def seq_Nil seq_Cons assms andThen_pure)

lemma list_entry_pure:
  "seq [lit ''<li><a href=\"#'', act URL (Str (ID ex)), lit ''\">'',
        act Element (Str (or_string (ParentID ex) ''Package'')),
        with_string (example.Suffix ex)
          (\<lambda>s. seq [lit '' ('', act Element (Str s), lit '')'']),
        lit ''</a></li>'', nl]
   = (spec_list_entry ex, None)"
  by (simp add: exec_defs spec_list_entry_def or_string_def)

lemma tmpl_examples_list_eq:
  "tmpl_examples_list d
   = (if List (data.Examples d) = [] then [] else spec_examples_list (List (data.Examples d)),
      None)"
  unfolding tmpl_examples_list_def list_entry_pure
  by (simp add: range_slice_pure seq_Nil seq_Cons andThen_pure lit_def nl_def act_def
      if_then_def spec_examples_list_def)

lemmas heading_simps = examples_heading_def pilcrow_def in_simps Let_def

lemma example_not_heading:
  "x \<in> set (fst (tmpl_example fm exs)) \<Longrightarrow> x \<noteq> Text examples_heading"
  by (auto simp: tmpl_example_def heading_simps dest!: in_exec)

lemma decl_not_heading:
  "x \<in> set (fst (tmpl_decl fm doc decl)) \<Longrightarrow> x \<noteq> Text examples_heading"
  by (auto simp: tmpl_decl_def heading_simps dest!: in_exec)

lemma nav_not_heading:
  "x \<in> set (fst (tmpl_nav d)) \<Longrightarrow> x \<noteq> Text examples_heading"
  by (auto simp: tmpl_nav_def heading_simps dest!: in_exec)

lemma overview_not_heading:
  "x \<in> set (fst (tmpl_overview fm d)) \<Longrightarrow> x \<noteq> Text examples_heading"
  by (auto simp: tmpl_overview_def heading_simps dest!: in_exec dest: example_not_heading)

lemma index_func_not_heading:
  "x \<in> set (fst (tmpl_index_func fm f)) \<Longrightarrow> x \<noteq> Text examples_heading"
  by (auto simp: tmpl_index_func_def heading_simps dest!: in_exec)

lemma index_method_not_heading:
  "x \<in> set (fst (tmpl_index_method fm tname m)) \<Longrightarrow> x \<noteq> Text examples_heading"
  by (auto simp: tmpl_index_method_def heading_simps dest!: in_exec)

lemma index_type_not_heading:
  "x \<in> set (fst (tmpl_index_type fm t)) \<Longrightarrow> x \<noteq> Text examples_heading"
  by (auto simp: tmpl_index_type_def heading_simps dest!: in_exec
      dest: index_func_not_heading index_method_not_heading)

lemma index_not_heading:
  "x \<in> set (fst (tmpl_index fm d)) \<Longrightarrow> x \<noteq> Text examples_heading"
  by (auto simp: tmpl_index_def heading_simps dest!: in_exec
      dest: index_func_not_heading index_type_not_heading)

lemma consts_not_heading:
  "x \<in> set (fst (tmpl_consts fm d)) \<Longrightarrow> x \<noteq> Text examples_heading"
  by (auto simp: tmpl_consts_def heading_simps dest!: in_exec dest: decl_not_heading)

lemma vars_not_heading:
  "x \<in> set (fst (tmpl_vars fm d)) \<Longrightarrow> x \<noteq> Text examples_heading"
  by (auto simp: tmpl_vars_def heading_simps dest!: in_exec dest: decl_not_heading)

lemma func_not_heading:
  "x \<in> set (fst (tmpl_func fm d f)) \<Longrightarrow> x \<noteq> Text examples_heading"
  by (auto simp: tmpl_func_def heading_simps dest!: in_exec
      dest: decl_not_heading example_not_heading)

lemma method_not_heading:
  "x \<in> set (fst (tmpl_method fm d tname m)) \<Longrightarrow> x \<noteq> Text examples_heading"
  by (auto simp: tmpl_method_def heading_simps dest!: in_exec
      dest: decl_not_heading example_not_heading)

lemma type_not_heading:
  "x \<in> set (fst (tmpl_type fm d t)) \<Longrightarrow> x \<noteq> Text examples_heading"
  by (auto simp: tmpl_type_def heading_simps dest!: in_exec
      dest: decl_not_heading example_not_heading func_not_heading method_not_heading)

lemma notes_not_heading:
  "x \<in> set (fst (tmpl_notes fm d)) \<Longrightarrow> x \<noteq> Text examples_heading"
  by (auto simp: tmpl_notes_def heading_simps dest!: in_exec)

lemma htmlPackage_examples_list:
  fixes fm :: "('n, 'e) FuncMap" and d :: "'n data"
  assumes ok: "snd (htmlPackage fm d) = None"
    and decls: "Package.Consts (Package d) \<noteq> [] \<or> Package.Vars (Package d) \<noteq> []
                \<or> Package.Funcs (Package d) \<noteq> [] \<or> Package.Types (Package d) \<noteq> []"
  shows "(Text examples_heading \<in> set (fst (htmlPackage fm d))
          \<longleftrightarrow> List (data.Examples d) \<noteq> [])
       \<and> (List (data.Examples d) \<noteq> []
            \<longrightarrow> (\<exists>pre post. fst (htmlPackage fm d)
                     = pre @ spec_examples_list (List (data.Examples d)) @ post))"
proof -
  define a0 :: "'e exec" where "a0 = act Element (Str [])"
  define nav :: "'e exec" where "nav = tmpl_nav d"
  define ov where "ov = tmpl_overview fm d"
  define idx where "idx = tmpl_index fm d"
  define exl :: "'e exec" where "exl = tmpl_examples_list d"
  define cs where "cs = tmpl_consts fm d"
  define vs where "vs = tmpl_vars fm d"
  define fs where "fs = range_slice (Package.Funcs (Package d)) (tmpl_func fm d)"
  define ts where "ts = range_slice (Package.Types (Package d)) (tmpl_type fm d)"
  define nts where "nts = tmpl_notes fm d"
  define e :: "'e exec" where "e = ([], None)"
  have eq: "htmlPackage fm d
            = andThen a0 (andThen nav (andThen ov
                (andThen (andThen idx (andThen exl (andThen cs (andThen vs
                            (andThen fs (andThen ts e))))))
                   (andThen nts e))))"
    using decls
    by (simp add: htmlPackage_def Let_def seq_Cons seq_Nil if_then_def a0_def nav_def ov_def
        idx_def exl_def cs_def vs_def fs_def ts_def nts_def e_def)
  have oks: "snd a0 = None" "snd nav = None" "snd ov = None" "snd idx = None" "snd exl = None"
    "snd cs = None" "snd vs = None" "snd fs = None" "snd ts = None" "snd nts = None"
    "snd e = None"
    using ok unfolding eq by (simp_all add: andThen_ok e_def)
  have pieces: "fst (htmlPackage fm d)
                = (fst a0 @ fst nav @ fst ov @ fst idx) @ fst exl
                  @ (fst cs @ fst vs @ fst fs @ fst ts @ fst nts)"
    unfolding eq using oks by (simp add: fst_andThen_ok andThen_ok e_def)
  have exl: "fst exl = (if List (data.Examples d) = [] then []
                        else spec_examples_list (List (data.Examples d)))"
    by (simp add: exl_def tmpl_examples_list_eq)
  have others: "Text examples_heading \<notin> set (fst a0 @ fst nav @ fst ov @ fst idx)"
    "Text examples_heading \<notin> set (fst cs @ fst vs @ fst fs @ fst ts @ fst nts)"
    by (auto simp: a0_def in_act nav_def ov_def idx_def cs_def vs_def fs_def ts_def nts_def
        dest!: in_range_slice
        dest: func_not_heading type_not_heading nav_not_heading overview_not_heading
          index_not_heading consts_not_heading vars_not_heading notes_not_heading)
  have "Text examples_heading \<in> set (fst (htmlPackage fm d))
        \<longleftrightarrow> List (data.Examples d) \<noteq> []"
    using others by (simp add: pieces exl spec_examples_list_def)
  moreover have "\<exists>pre post. fst (htmlPackage fm d)
                   = pre @ spec_examples_list (List (data.Examples d)) @ post"
    if "List (data.Examples d) \<noteq> []"
  proof (intro exI)
    show "fst (htmlPackage fm d)
          = (fst a0 @ fst nav @ fst ov @ fst idx) @ spec_examples_list (List (data.Examples d))
            @ (fst cs @ fst vs @ fst fs @ fst ts @ fst nts)"
      using that pieces exl by simp
  qed
  ultimately show ?thesis
    by blast
qed

text \<open>
  The list of examples inside the block of declarations. For a package that has a
  constant, a variable, a function or a type, and a run of the template that completes: the
  document contains the heading of the list of examples if and only if the index holds at
  least one example, and then the list is there entry by entry, each labelled by its parent
  identifier, or \<open>Package\<close> when that is empty, followed by its suffix in parentheses when
  the suffix is not empty.
\<close>

theorem examples_list_section:
  assumes "walk New fset opt pkg = Some t" and "snd t = None"
    and "Package.Consts pkg \<noteq> [] \<or> Package.Vars pkg \<noteq> []
         \<or> Package.Funcs pkg \<noteq> [] \<or> Package.Types pkg \<noteq> []"
  shows "\<exists>exs. collectExamples pkg = Some exs
           \<and> (Text examples_heading \<in> set (fst t) \<longleftrightarrow> List exs \<noteq> [])
           \<and> (List exs \<noteq> []
                \<longrightarrow> (\<exists>pre post. fst t = pre @ spec_examples_list (List exs) @ post))"
proof -
  obtain exs where exs: "collectExamples pkg = Some exs"
    by (simp add: collectExamples_sort_key)
  let ?d = "\<lparr>RootURL = ''/pkg'', Package = pkg, Examples = exs\<rparr>"
  have t: "t = htmlPackage (funcs (New fset pkg) opt) ?d"
    using assms(1) by (simp add: walk_def exs)
  from htmlPackage_examples_list [of "funcs (New fset pkg) opt" ?d] assms(2,3)
  show ?thesis
    unfolding t exs by simp
qed

lemma andThen_fail: "andThen (xs, Some e) b = (xs, Some e)"
  by (simp add: andThen_def)

lemma call_Inr: "call (Inr v) k = k v"
  by (simp add: call_def)

lemma call_Inl: "call (Inl e) k = ([], Some e)"
  by (simp add: call_def)

lemma if_then_True: "if_then True a = a"
  by (simp add: if_then_def)

lemma if_then_False: "if_then False a = ([], None)"
  by (simp add: if_then_def)

lemmas exec_eval = seq_Nil seq_Cons andThen_pure andThen_fail lit_def act_def nl_def
  call_Inr call_Inl if_then_True if_then_False with_string_def range_slice_def range_map_def

lemmas tmpl_defs = htmlPackage_def tmpl_nav_def tmpl_overview_def tmpl_index_def
  tmpl_index_func_def tmpl_index_method_def tmpl_index_type_def tmpl_examples_list_def
  tmpl_consts_def tmpl_vars_def tmpl_func_def tmpl_method_def tmpl_type_def tmpl_notes_def
  tmpl_example_def tmpl_decl_def

lemmas sample_defs = newOK_def rendererOK_def optsOK_def funcs_def sourceLink_def escape0_def
  exampleMain_def exampleBasic_def example_Code_def ternary_def or_string_def
  index_def byParent_def indexed_def spec_example_def idString_def

lemma collectExamples_pkgExamplesOnly: "collectExamples pkgExamplesOnly = Some exsExamplesOnly"
  by (simp add: collectExamples_sort_key spec_discovery_def pkgExamplesOnly_def
      exsExamplesOnly_def indexed_def)

lemma walk_pkgExamplesOnly: "walk newOK () (optsOK 0) pkgExamplesOnly = Some walkExamplesOnly"
  by (simp add: walk_def collectExamples_pkgExamplesOnly walkExamplesOnly_def newOK_def)

lemma walkExamplesOnly_ok: "snd walkExamplesOnly = None"
  by (simp add: walkExamplesOnly_def exsExamplesOnly_def pkgExamplesOnly_def tmpl_defs
      exec_eval sample_defs Let_def)

lemma walkExamplesOnly_heading: "Text examples_heading \<notin> set (fst walkExamplesOnly)"
  by (simp add: walkExamplesOnly_def exsExamplesOnly_def pkgExamplesOnly_def tmpl_defs
      exec_eval sample_defs Let_def examples_heading_def pilcrow_def)

lemma walkExamplesOnly_nav:
  \<open>Text ''<li><a href="#pkg-examples">Examples</a></li>'' \<in> set (fst walkExamplesOnly)\<close>
  by (simp add: walkExamplesOnly_def exsExamplesOnly_def pkgExamplesOnly_def tmpl_defs
      exec_eval sample_defs Let_def examples_heading_def pilcrow_def)

text \<open>
  Claim C7. The document is to contain the list of examples whenever the index holds an
  example, also for a package without a constant, variable, function or type. The template
  misses this: the list (lines 291 to 298) sits inside the block that runs only for a
  package with declarations (lines 267 to 367), while the navigation list (lines 255 to
  257) links to it whenever the index is not empty. For the library with nothing but a
  package example the run completes, the index holds the example, the navigation list
  links to \<^verbatim>\<open>#pkg-examples\<close>, and the list itself is not written.
\<close>

theorem examples_list_without_declarations:
  \<open>walk newOK () (optsOK 0) pkgExamplesOnly = Some walkExamplesOnly
   \<and> snd walkExamplesOnly = None
   \<and> collectExamples pkgExamplesOnly = Some exsExamplesOnly
   \<and> List exsExamplesOnly = [spec_example ([], exampleMain)]
   \<and> Text examples_heading \<notin> set (fst walkExamplesOnly)
   \<and> Text ''<li><a href="#pkg-examples">Examples</a></li>'' \<in> set (fst walkExamplesOnly)\<close>
  by (simp add: walk_pkgExamplesOnly walkExamplesOnly_ok collectExamples_pkgExamplesOnly
      walkExamplesOnly_heading walkExamplesOnly_nav)
    (simp add: exsExamplesOnly_def indexed_def)

lemma walk_pkgRing_ok:
  "\<exists>t. walk newOK () (optsOK 0) pkgRing = Some t \<and> snd t = None"
  by (simp add: walk_def collectExamples_sort_key spec_discovery_def spec_funcExamples_def
      pkgRing_def tmpl_defs exec_eval sample_defs Let_def)

theorem examples_list_section_witness:
  "\<exists>t exs. walk newOK () (optsOK 0) pkgRing = Some t \<and> snd t = None
      \<and> collectExamples pkgRing = Some exs
      \<and> map ID (List exs) = [''example-package'', ''example-New-basic'']
      \<and> Text examples_heading \<in> set (fst t)
      \<and> (\<exists>pre post. fst t = pre @ spec_examples_list (List exs) @ post)
      \<and> map spec_list_entry (List exs)
        = [[Text ''<li><a href=\"#'', Action URL (Str ''example-package''), Text ''\">'',
            Action Element (Str ''Package''), Text ''</a></li>'',
            Action Element (Str [CHR 0x0A])],
           [Text ''<li><a href=\"#'', Action URL (Str ''example-New-basic''), Text ''\">'',
            Action Element (Str ''New''), Text '' ('', Action Element (Str ''basic''),
            Text '')'', Text ''</a></li>'', Action Element (Str [CHR 0x0A])]]"
proof -
  obtain t where w: "walk newOK () (optsOK 0) pkgRing = Some t" and ok: "snd t = None"
    using walk_pkgRing_ok by blast
  have d: "Package.Consts pkgRing \<noteq> [] \<or> Package.Vars pkgRing \<noteq> []
           \<or> Package.Funcs pkgRing \<noteq> [] \<or> Package.Types pkgRing \<noteq> []"
    by (simp add: pkgRing_def)
  have c: "collectExamples pkgRing
           = Some (indexed [spec_example ([], exampleMain), spec_example (''New'', exampleBasic)])"
    by (simp add: collectExamples_sort_key spec_discovery_def spec_funcExamples_def pkgRing_def
        indexed_def spec_example_def)
  from examples_list_section [OF w ok d] show ?thesis
    unfolding c
    by (auto simp: w ok indexed_def spec_example_def idString_def exampleMain_def
        exampleBasic_def spec_list_entry_def)
qed

subsection \<open>Determinism\<close>

lemma sort_key_map_of:
  assumes "distinct (map fst xs)" "distinct (map fst ys)" "map_of xs = map_of ys"
  shows "sort_key fst xs = sort_key fst ys"
proof (rule sort_key_eq_sort_key)
  have "set xs = set ys"
    using assms by (simp add: map_of_inject_set)
  moreover have "distinct xs" "distinct ys"
    using assms(1,2) by (simp_all add: distinct_map)
  ultimately show "mset xs = mset ys"
    by (simp add: set_eq_iff_mset_eq_distinct)
  show "inj_on fst (set xs)"
    using assms(1) by (simp add: distinct_map)
qed

lemma range_map_map_of:
  assumes "distinct (map fst xs)" "distinct (map fst ys)" "map_of xs = map_of ys"
  shows "range_map xs body = range_map ys body"
  by (simp add: range_map_def sort_key_map_of [OF assms])

lemma tmpl_func_Examples:
  "data.Examples d1 = data.Examples d2 \<Longrightarrow> tmpl_func fm d1 = tmpl_func fm d2"
  by (rule ext) (simp add: tmpl_func_def)

lemma tmpl_method_Examples:
  "data.Examples d1 = data.Examples d2 \<Longrightarrow> tmpl_method fm d1 = tmpl_method fm d2"
  by (rule ext, rule ext) (simp add: tmpl_method_def)

lemma tmpl_type_Examples:
  "data.Examples d1 = data.Examples d2 \<Longrightarrow> tmpl_type fm d1 = tmpl_type fm d2"
  by (rule ext)
    (simp add: tmpl_type_def tmpl_func_Examples [of d1 d2] tmpl_method_Examples [of d1 d2])

lemma htmlPackage_Notes:
  fixes fm :: "('n, 'e) FuncMap"
  assumes "distinct (map fst ns1)" "distinct (map fst ns2)" "map_of ns1 = map_of ns2"
  shows "htmlPackage fm \<lparr>RootURL = u, Package = pkg\<lparr>Package.Notes := ns1\<rparr>, Examples = exs\<rparr>
         = htmlPackage fm \<lparr>RootURL = u, Package = pkg\<lparr>Package.Notes := ns2\<rparr>, Examples = exs\<rparr>"
proof -
  let ?d1 = "\<lparr>RootURL = u, Package = pkg\<lparr>Package.Notes := ns1\<rparr>, Examples = exs\<rparr>"
  let ?d2 = "\<lparr>RootURL = u, Package = pkg\<lparr>Package.Notes := ns2\<rparr>, Examples = exs\<rparr>"
  note r = range_map_map_of [OF assms]
  have "tmpl_nav ?d1 = (tmpl_nav ?d2 :: 'e exec)"
    by (simp add: tmpl_nav_def)
  moreover have "tmpl_overview fm ?d1 = tmpl_overview fm ?d2"
    by (simp add: tmpl_overview_def)
  moreover have "tmpl_index fm ?d1 = tmpl_index fm ?d2"
    by (simp add: tmpl_index_def r)
  moreover have "tmpl_examples_list ?d1 = (tmpl_examples_list ?d2 :: 'e exec)"
    by (simp add: tmpl_examples_list_def)
  moreover have "tmpl_consts fm ?d1 = tmpl_consts fm ?d2"
    by (simp add: tmpl_consts_def)
  moreover have "tmpl_vars fm ?d1 = tmpl_vars fm ?d2"
    by (simp add: tmpl_vars_def)
  moreover have "tmpl_func fm ?d1 = tmpl_func fm ?d2"
    by (rule tmpl_func_Examples) simp
  moreover have "tmpl_type fm ?d1 = tmpl_type fm ?d2"
    by (rule tmpl_type_Examples) simp
  moreover have "tmpl_notes fm ?d1 = tmpl_notes fm ?d2"
    by (simp add: tmpl_notes_def r)
  ultimately show ?thesis
    by (simp add: htmlPackage_def Let_def)
qed

text \<open>
  Claim C8. The result of \<open>Render\<close>, bytes and error, is a function of the package, the
  options and the hooks alone. Two calls on the same package value give the same result
  whatever the heaps they run in and whatever the addresses involved; and the run of the
  template does not depend on the order in which the map of notes happens to hold its
  entries, the one place where Go leaves an order open.
\<close>

theorem Render_deterministic:
  "(p1 < length h1 \<and> p2 < length h2 \<and> h1 ! p1 = h2 ! p2
      \<longrightarrow> fst (Render escape New h1 fset p1 opt) = fst (Render escape New h2 fset p2 opt))
   \<and> (distinct (map fst ns1) \<and> distinct (map fst ns2) \<and> map_of ns1 = map_of ns2
      \<longrightarrow> htmlPackage fm \<lparr>RootURL = u, Package = pkg\<lparr>Package.Notes := ns1\<rparr>, Examples = exs\<rparr>
          = htmlPackage fm \<lparr>RootURL = u, Package = pkg\<lparr>Package.Notes := ns2\<rparr>,
                             Examples = exs\<rparr>)"
proof (intro conjI impI)
  assume a: "p1 < length h1 \<and> p2 < length h2 \<and> h1 ! p1 = h2 ! p2"
  obtain t where t: "walk New fset opt (spec_entry (h1 ! p1)) = Some t"
    using walk_total [of New fset opt "spec_entry (h1 ! p1)"] by blast
  from a t have t2: "walk New fset opt (spec_entry (h2 ! p2)) = Some t"
    by simp
  show "fst (Render escape New h1 fset p1 opt) = fst (Render escape New h2 fset p2 opt)"
    using a Render_outcome [OF _ t, of escape] Render_outcome [OF _ t2, of escape] by simp
next
  assume "distinct (map fst ns1) \<and> distinct (map fst ns2) \<and> map_of ns1 = map_of ns2"
  then show "htmlPackage fm \<lparr>RootURL = u, Package = pkg\<lparr>Package.Notes := ns1\<rparr>, Examples = exs\<rparr>
          = htmlPackage fm \<lparr>RootURL = u, Package = pkg\<lparr>Package.Notes := ns2\<rparr>,
                             Examples = exs\<rparr>"
    by (simp add: htmlPackage_Notes)
qed

theorem Render_deterministic_witness:
  "fst (Render escape0 newOK [pkgDoc] () 0 (optsOK 0))
   = fst (Render escape0 newOK [pkgMain, pkgRing, pkgDoc] () 2 (optsOK 0))
   \<and> notesA \<noteq> notesB
   \<and> htmlPackage (funcs rendererOK (optsOK 0))
        \<lparr>RootURL = ''/pkg'', Package = pkgDoc\<lparr>Package.Notes := notesA\<rparr>, Examples = indexed []\<rparr>
     = htmlPackage (funcs rendererOK (optsOK 0))
        \<lparr>RootURL = ''/pkg'', Package = pkgDoc\<lparr>Package.Notes := notesB\<rparr>, Examples = indexed []\<rparr>"
proof -
  have h: "(0::nat) < length [pkgDoc] \<and> (2::nat) < length [pkgMain, pkgRing, pkgDoc]
           \<and> [pkgDoc] ! 0 = [pkgMain, pkgRing, pkgDoc] ! 2"
    by simp
  have n: "distinct (map fst notesA) \<and> distinct (map fst notesB) \<and> map_of notesA = map_of notesB"
    by (auto simp: notesA_def notesB_def fun_eq_iff)
  have "notesA \<noteq> notesB"
    by (simp add: notesA_def notesB_def)
  with h n Render_deterministic [of 0 "[pkgDoc]" 2 "[pkgMain, pkgRing, pkgDoc]" escape0 newOK "()"
      "optsOK 0" notesA notesB "funcs rendererOK (optsOK 0)" "''/pkg''" pkgDoc "indexed []"]
  show ?thesis
    by blast
qed

end
